theory Spec2Isabelle
  imports Complex_Main "HOL-Library.Word" "HOL-Library.Signed_Division" "HOL-Library.Sublist"
begin

unbundle bit_operations_syntax

section \<open>Data model (internal/models)\<close>

text \<open>
  Identifiers are opaque; instants and durations are counted in nanoseconds, as Go's
  \<open>time.Duration\<close> does. \<open>TriggerType\<close> and \<open>TaskStatus\<close> are string types in
  the source, with named constants.
\<close>

type_synonym uuid = nat
type_synonym time = int
type_synonym TriggerType = string
type_synonym TaskStatus = string

definition TriggerTypeOneOff :: TriggerType where
  "TriggerTypeOneOff = ''one-off''"

definition TriggerTypeCron :: TriggerType where
  "TriggerTypeCron = ''cron''"

definition TaskStatusScheduled :: TaskStatus where
  "TaskStatusScheduled = ''scheduled''"


definition TaskStatusCompleted :: TaskStatus where
  "TaskStatusCompleted = ''completed''"

record Task =
  ID :: uuid
  Name :: string
  TriggerType :: TriggerType
  TriggerTime :: "time option"
  CronExpr :: "string option"
  Method :: string
  URL :: string
  Headers :: "(string \<times> string) list"
  Payload :: "string option"
  Status :: TaskStatus
  CreatedAt :: time
  UpdatedAt :: time
  NextRun :: "time option"

text \<open>
  \<open>TaskResult\<close>: the fields \<open>ID\<close> and \<open>CreatedAt\<close> carry the prefix \<open>Result\<close>
  here, since \<open>Task\<close> has fields of the same name. The preloaded \<open>Task\<close> relation of the
  source struct is never written by the code modelled below and is left out.
\<close>

record TaskResult =
  ResultID :: uuid
  TaskID :: uuid
  RunAt :: time
  StatusCode :: "int option"
  Success :: bool
  ResponseHeaders :: "(string \<times> string) list"
  ResponseBody :: "string option"
  ErrorMessage :: "string option"
  DurationMs :: int
  ResultCreatedAt :: time

record CreateTaskTrigger =
  Type :: TriggerType
  DateTime :: "time option"
  Cron :: "string option"

section \<open>Decimal text\<close>

text \<open>\<open>%d\<close> of \<open>fmt.Sprintf\<close>, and the digits read by \<open>strconv.Atoi\<close>.\<close>

definition digit_char :: "nat \<Rightarrow> char" where
  "digit_char d = ''0123456789'' ! d"

fun show_nat :: "nat \<Rightarrow> string" where
  "show_nat n = (if n < 10 then [digit_char n] else show_nat (n div 10) @ [digit_char (n mod 10)])"

declare show_nat.simps [simp del]

definition show_int :: "int \<Rightarrow> string" where
  "show_int i = (if i < 0 then CHR ''-'' # show_nat (nat (- i)) else show_nat (nat i))"

definition is_digit :: "char \<Rightarrow> bool" where
  "is_digit c = (48 \<le> (of_char c :: nat) \<and> (of_char c :: nat) \<le> 57)"

definition digit_val :: "char \<Rightarrow> nat" where
  "digit_val c = of_char c - 48"

definition decimal_val :: "string \<Rightarrow> nat" where
  "decimal_val ds = foldl (\<lambda>n c. n * 10 + digit_val c) 0 ds"

datatype NumError = ErrSyntax | ErrRange

text \<open>
  \<open>strconv.Atoi\<close> on a 64-bit platform: an optional sign, then at least one decimal digit
  and nothing else. On a syntax error the value is 0; out of range the value is the
  nearest bound of int64, and the error says so. The callers below drop the error.
\<close>

definition Atoi :: "string \<Rightarrow> int \<times> NumError option" where
  "Atoi s =
     (let neg = (s \<noteq> [] \<and> hd s = CHR ''-'');
          ds = (if s \<noteq> [] \<and> (hd s = CHR ''-'' \<or> hd s = CHR ''+'') then tl s else s)
      in if ds = [] \<or> \<not> list_all is_digit ds then (0, Some ErrSyntax)
         else let n = int (decimal_val ds)
              in if \<not> neg \<and> n \<ge> 2 ^ 63 then (2 ^ 63 - 1, Some ErrRange)
                 else if neg \<and> n > 2 ^ 63 then (- (2 ^ 63), Some ErrRange)
                 else (if neg then - n else n, None))"

section \<open>Paging of the list endpoints (internal/handlers)\<close>

text \<open>
  \<open>c.DefaultQuery(key, d)\<close> gives the query value when the key is present and \<open>d\<close>
  otherwise. \<open>GetTasks\<close>, \<open>GetTaskResults\<close> and \<open>GetResults\<close> each compute the page
  and the page size with the same statements; each returns \<open>(page, limit)\<close>.
\<close>

definition DefaultQuery :: "string option \<Rightarrow> string \<Rightarrow> string" where
  "DefaultQuery q d = (case q of Some v \<Rightarrow> v | None \<Rightarrow> d)"

definition GetTasks_paging :: "string option \<Rightarrow> string option \<Rightarrow> int \<times> int" where
  "GetTasks_paging pageq limitq =
     (let page = fst (Atoi (DefaultQuery pageq ''1''));
          limit = fst (Atoi (DefaultQuery limitq ''10''));
          page = (if page < 1 then 1 else page);
          limit = (if limit < 1 \<or> limit > 100 then 10 else limit)
      in (page, limit))"

definition GetTaskResults_paging :: "string option \<Rightarrow> string option \<Rightarrow> int \<times> int" where
  "GetTaskResults_paging pageq limitq =
     (let page = fst (Atoi (DefaultQuery pageq ''1''));
          limit = fst (Atoi (DefaultQuery limitq ''10''));
          page = (if page < 1 then 1 else page);
          limit = (if limit < 1 \<or> limit > 100 then 10 else limit)
      in (page, limit))"

definition GetResults_paging :: "string option \<Rightarrow> string option \<Rightarrow> int \<times> int" where
  "GetResults_paging pageq limitq =
     (let page = fst (Atoi (DefaultQuery pageq ''1''));
          limit = fst (Atoi (DefaultQuery limitq ''10''));
          page = (if page < 1 then 1 else page);
          limit = (if limit < 1 \<or> limit > 100 then 10 else limit)
      in (page, limit))"

section \<open>The single-attempt executor (internal/executor, HTTPExecutor)\<close>

text \<open>
  What the network does during one attempt is given from outside: whether
  \<open>prepareRequest\<close> fails (with the text of its error), whether \<open>client.Do\<close> fails
  (a transport error) or answers, and, for an answer, whether reading the body fails
  part-way or yields its bytes. The header of a response maps each name to a list of
  values. \<open>elapsed\<close> is what \<open>time.Since(startTime)\<close> reads, \<open>returned\<close> the
  time the whole call has taken when it returns.
\<close>

record Response =
  resp_StatusCode :: int
  resp_Header :: "(string \<times> string list) list"
  resp_Body :: "string + string"

record attempt =
  prepared :: "string option"
  answer :: "string + Response"
  created :: time
  elapsed :: nat
  returned :: nat

text \<open>
  The world an executor runs in: the clock, the number of attempts made so far and the
  number of identifiers drawn so far. \<open>uuid.New()\<close> draws the next identifier.
\<close>

record world =
  clock :: time
  attempts :: nat
  drawn :: nat

type_synonym network = "nat \<Rightarrow> Task \<Rightarrow> attempt"

definition Milliseconds :: "nat \<Rightarrow> int" where
  "Milliseconds d = int (d div 1000000)"

definition first_values :: "(string \<times> string list) list \<Rightarrow> (string \<times> string) list" where
  "first_values h = map (\<lambda>(key, values). (key, hd values)) (filter (\<lambda>(key, values). length values > 0) h)"

definition store_body :: "string \<Rightarrow> string" where
  "store_body bodyStr =
     (if length bodyStr > 10000 then take 10000 bodyStr @ ''... (truncated)'' else bodyStr)"

definition HTTPExecutor_Execute :: "network \<Rightarrow> Task \<Rightarrow> world \<Rightarrow> TaskResult \<times> world" where
  "HTTPExecutor_Execute net task w =
     (let a = net (attempts w) task;
          startTime = clock w;
          w' = w\<lparr>clock := clock w + int (returned a), attempts := attempts w + 1,
                 drawn := drawn w + 1\<rparr>;
          result = \<lparr>ResultID = drawn w, TaskID = ID task, RunAt = startTime, StatusCode = None,
                    Success = False, ResponseHeaders = [], ResponseBody = None,
                    ErrorMessage = None, DurationMs = 0, ResultCreatedAt = created a\<rparr>
      in case prepared a of
           Some err \<Rightarrow>
             (result\<lparr>ErrorMessage := Some (''Failed to prepare request: '' @ err),
                     DurationMs := Milliseconds (elapsed a)\<rparr>, w')
         | None \<Rightarrow>
             (case answer a of
                Inl err \<Rightarrow>
                  (result\<lparr>ErrorMessage := Some (''HTTP request failed: '' @ err),
                          DurationMs := Milliseconds (elapsed a)\<rparr>, w')
              | Inr resp \<Rightarrow>
                  (let result = result\<lparr>DurationMs := Milliseconds (elapsed a),
                                       StatusCode := Some (resp_StatusCode resp),
                                       Success := (resp_StatusCode resp \<ge> 200 \<and> resp_StatusCode resp < 300),
                                       ResponseHeaders := first_values (resp_Header resp)\<rparr>
                   in case resp_Body resp of
                        Inl err \<Rightarrow>
                          (result\<lparr>ErrorMessage := Some (''Failed to read response body: '' @ err)\<rparr>, w')
                      | Inr body \<Rightarrow>
                          (let result = result\<lparr>ResponseBody := Some (store_body body)\<rparr>;
                               result =
                                 (if \<not> Success result then
                                    (case ErrorMessage result of
                                       None \<Rightarrow> result\<lparr>ErrorMessage := Some (''HTTP request returned status '' @ show_int (resp_StatusCode resp))\<rparr>
                                     | Some m \<Rightarrow> result\<lparr>ErrorMessage := Some (m @ '' (status: '' @ show_int (resp_StatusCode resp) @ '')'')\<rparr>)
                                  else result)
                           in (result, w')))))"

section \<open>The retry decorator (internal/executor, RetryExecutor)\<close>

text \<open>
  The wrapped executor is any function from a task and the state of the world to a
  result and the next state; \<open>time.Sleep\<close> is a function on that state. The loop counter
  is a Go \<open>int\<close>; it stays far from the bounds of int64 for every \<open>maxRetries\<close> used by
  the program, so it is an unbounded integer here. \<open>lastResult\<close> is a pointer that is nil
  until the first attempt has been made.
\<close>

record 'w RetryExecutor =
  executor :: "Task \<Rightarrow> 'w \<Rightarrow> TaskResult \<times> 'w"
  maxRetries :: int
  retryDelay :: int

definition NewRetryExecutor ::
  "(Task \<Rightarrow> 'w \<Rightarrow> TaskResult \<times> 'w) \<Rightarrow> int \<Rightarrow> int \<Rightarrow> 'w RetryExecutor" where
  "NewRetryExecutor e n d = \<lparr>executor = e, maxRetries = n, retryDelay = d\<rparr>"

function Execute_loop ::
  "'w RetryExecutor \<Rightarrow> (int \<Rightarrow> 'w \<Rightarrow> 'w) \<Rightarrow> Task \<Rightarrow> int \<Rightarrow> TaskResult option \<Rightarrow> 'w
     \<Rightarrow> TaskResult option \<times> 'w" where
  "Execute_loop r sleep task attempt lastResult w =
     (if attempt \<le> maxRetries r then
        (case executor r task (if attempt > 0 then sleep (retryDelay r) w else w) of
           (result, w') \<Rightarrow>
             if Success result then (Some result, w')
             else Execute_loop r sleep task (attempt + 1) (Some result) w')
      else (lastResult, w))"
  by pat_completeness auto
termination
  by (relation "measure (\<lambda>(r, sleep, task, attempt, lastResult, w). nat (maxRetries r - attempt + 1))") auto

declare Execute_loop.simps [simp del]

definition RetryExecutor_Execute ::
  "'w RetryExecutor \<Rightarrow> (int \<Rightarrow> 'w \<Rightarrow> 'w) \<Rightarrow> Task \<Rightarrow> 'w \<Rightarrow> TaskResult option \<times> 'w" where
  "RetryExecutor_Execute r sleep task w = Execute_loop r sleep task 0 None w"

text \<open>
  To count the calls made to the wrapped executor, it is run together with a journal
  that receives the result of every call, in order. The journal is invisible to the
  executor and to the decorator.
\<close>

definition journalled ::
  "(Task \<Rightarrow> 'w \<Rightarrow> TaskResult \<times> 'w) \<Rightarrow> Task \<Rightarrow> 'w \<times> TaskResult list \<Rightarrow> TaskResult \<times> ('w \<times> TaskResult list)" where
  "journalled e task wj = (case e task (fst wj) of (result, w') \<Rightarrow> (result, (w', snd wj @ [result])))"

definition journalled_sleep :: "(int \<Rightarrow> 'w \<Rightarrow> 'w) \<Rightarrow> int \<Rightarrow> 'w \<times> TaskResult list \<Rightarrow> 'w \<times> TaskResult list" where
  "journalled_sleep sleep d wj = (sleep d (fst wj), snd wj)"

text \<open>\<open>time.Second\<close> and \<open>time.Minute\<close>, in nanoseconds.\<close>

definition time_Second :: int where
  "time_Second = 1000000000"

definition time_Minute :: int where
  "time_Minute = 60 * time_Second"

section \<open>Errors\<close>

text \<open>
  Every error value and every runtime panic of the code modelled below. The errors of
  the cron library carry what its messages report.
\<close>

datatype error =
    EmptySpec
  | SliceBounds
  | BadLocation string
  | DescriptorsNotAccepted string
  | BadDuration string
  | UnrecognizedDescriptor string
  | MultipleOptionals
  | FieldCount nat nat nat
  | UnknownOptional
  | ParseIntFailed string
  | NegativeNumber string
  | TooManyHyphens string
  | TooManySlashes string
  | BelowMinimum nat nat
  | AboveMaximum nat nat
  | BeyondEnd nat nat
  | ZeroStep string
  | NilDereference
  | DivideByZero
  | RecordNotFound
  | ForeignKeyViolation

section \<open>Metrics (internal/metrics)\<close>

text \<open>
  The counters are int64 and \<open>time.Duration\<close> is int64: 64-bit words, read as signed.
  A float64 is modelled by a real number, so the rounding of float64 arithmetic is not
  part of the model; the result of a float64 division is \<open>None\<close> when the divisor is
  zero, where IEEE arithmetic gives an infinity or NaN instead of a number.
\<close>

type_synonym int64 = "64 word"

record Metrics =
  TotalTasksExecuted :: int64
  SuccessfulTasks :: int64
  FailedTasks :: int64
  TotalExecutionTime :: int64
  AverageExecutionTime :: int64
  TasksPerMinute :: real
  lastMinuteExecutions :: "time list"

record Snapshot =
  total_tasks_executed :: int64
  successful_tasks :: int64
  failed_tasks :: int64
  success_rate_percent :: "real option"
  average_execution_ms :: int64
  tasks_per_minute :: real

definition float64 :: "int64 \<Rightarrow> real" where
  "float64 x = real_of_int (sint x)"

definition float_div :: "real \<Rightarrow> real \<Rightarrow> real option" where
  "float_div a b = (if b = 0 then None else Some (a / b))"

definition NewMetrics :: Metrics where
  "NewMetrics = \<lparr>TotalTasksExecuted = 0, SuccessfulTasks = 0, FailedTasks = 0,
     TotalExecutionTime = 0, AverageExecutionTime = 0, TasksPerMinute = 0,
     lastMinuteExecutions = []\<rparr>"

text \<open>
  The pruning loop of \<open>RecordTaskExecution\<close>: the slice is cut at the first instant after
  the cutoff; when there is none, the loop ends without cutting.
\<close>

fun prune :: "time \<Rightarrow> time list \<Rightarrow> time list option" where
  "prune cutoff [] = None"
| "prune cutoff (t # ts) = (if t > cutoff then Some (t # ts) else prune cutoff ts)"

text \<open>
  Go's integer division panics when the divisor is zero; otherwise it truncates towards
  zero, and the quotient of the least int64 by \<open>-1\<close> wraps around.
\<close>

definition int64_div :: "int64 \<Rightarrow> int64 \<Rightarrow> error + int64" where
  "int64_div a b = (if b = 0 then Inl DivideByZero else Inr (word_of_int (sint a sdiv sint b)))"

definition RecordTaskExecution :: "Metrics \<Rightarrow> int64 \<Rightarrow> bool \<Rightarrow> time \<Rightarrow> error + Metrics" where
  "RecordTaskExecution m duration success now =
     (let total = TotalTasksExecuted m + 1;
          spent = TotalExecutionTime m + duration
      in case int64_div spent total of
           Inl e \<Rightarrow> Inl e
         | Inr average \<Rightarrow>
           let m = m\<lparr>TotalTasksExecuted := total, TotalExecutionTime := spent,
                     AverageExecutionTime := average\<rparr>;
               m = (if success then m\<lparr>SuccessfulTasks := SuccessfulTasks m + 1\<rparr>
                    else m\<lparr>FailedTasks := FailedTasks m + 1\<rparr>);
               execs = lastMinuteExecutions m @ [now];
               execs = (case prune (now - time_Minute) execs of Some kept \<Rightarrow> kept | None \<Rightarrow> execs)
           in Inr (m\<lparr>lastMinuteExecutions := execs, TasksPerMinute := real (length execs)\<rparr>))"

definition GetMetrics :: "Metrics \<Rightarrow> Snapshot" where
  "GetMetrics m =
     (let successRate = Some 0;
          successRate =
            (if 0 <s TotalTasksExecuted m then
               (case float_div (float64 (SuccessfulTasks m)) (float64 (TotalTasksExecuted m)) of
                  None \<Rightarrow> None
                | Some q \<Rightarrow> Some (q * 100))
             else successRate)
      in \<lparr>total_tasks_executed = TotalTasksExecuted m,
          successful_tasks = SuccessfulTasks m,
          failed_tasks = FailedTasks m,
          success_rate_percent = successRate,
          average_execution_ms = word_of_int (sint (AverageExecutionTime m) sdiv 1000000),
          tasks_per_minute = TasksPerMinute m\<rparr>)"

definition Reset :: "Metrics \<Rightarrow> Metrics" where
  "Reset m = m\<lparr>TotalTasksExecuted := 0, SuccessfulTasks := 0, FailedTasks := 0,
     TotalExecutionTime := 0, AverageExecutionTime := 0, TasksPerMinute := 0,
     lastMinuteExecutions := []\<rparr>"

text \<open>
  The states a \<open>Metrics\<close> value goes through: created by \<open>NewMetrics\<close>, then changed by
  \<open>RecordTaskExecution\<close> and \<open>Reset\<close> only. A panic ends the run.
\<close>

datatype metrics_call = Record int64 bool time | ResetAll

fun metrics_run :: "Metrics \<Rightarrow> metrics_call list \<Rightarrow> error + Metrics" where
  "metrics_run m [] = Inr m"
| "metrics_run m (Record d ok now # cs) =
     (case RecordTaskExecution m d ok now of Inl e \<Rightarrow> Inl e | Inr m' \<Rightarrow> metrics_run m' cs)"
| "metrics_run m (ResetAll # cs) = metrics_run (Reset m) cs"

section \<open>The cron library (github.com/robfig/cron/v3)\<close>

text \<open>
  The repository calls the library's parser in three configurations: \<open>cron.ParseStandard\<close>
  (create-time validation), \<open>cron.NewParser(Minute | Hour | Dom | Month | Dow)\<close>
  (\<open>calculateNextCronRun\<close>) and the parser of \<open>cron.New(cron.WithSeconds())\<close> (the
  scheduler's ticker). The library is a dependency, outside the repository; its parser
  is modelled after parser.go of release 3: the specification string is cut at white
  space, the number of fields must equal the number of places the parser is configured
  with, and each field is a comma-separated list of ranges with optional steps.
  Loading a time zone, parsing the duration of \<open>@every\<close> and computing the next
  activation of a schedule are taken as parameters. Strings are bytes; only ASCII white
  space and ASCII letters are treated as such.
\<close>

datatype ParseOption =
  Second | SecondOptional | Minute | Hour | Dom | Month | Dow | DowOptional | Descriptor

record bounds =
  bmin :: nat
  bmax :: nat
  names :: "(string \<times> nat) list"

definition seconds :: bounds where
  "seconds = \<lparr>bmin = 0, bmax = 59, names = []\<rparr>"

definition minutes :: bounds where
  "minutes = \<lparr>bmin = 0, bmax = 59, names = []\<rparr>"

definition hours :: bounds where
  "hours = \<lparr>bmin = 0, bmax = 23, names = []\<rparr>"

definition dom :: bounds where
  "dom = \<lparr>bmin = 1, bmax = 31, names = []\<rparr>"

definition months :: bounds where
  "months = \<lparr>bmin = 1, bmax = 12, names =
     [(''jan'', 1), (''feb'', 2), (''mar'', 3), (''apr'', 4), (''may'', 5), (''jun'', 6),
      (''jul'', 7), (''aug'', 8), (''sep'', 9), (''oct'', 10), (''nov'', 11), (''dec'', 12)]\<rparr>"

definition dow :: bounds where
  "dow = \<lparr>bmin = 0, bmax = 6, names =
     [(''sun'', 0), (''mon'', 1), (''tue'', 2), (''wed'', 3), (''thu'', 4), (''fri'', 5),
      (''sat'', 6)]\<rparr>"

datatype Schedule =
    SpecSchedule int64 int64 int64 int64 int64 int64 string
  | ConstantDelaySchedule int

record cronlib =
  LoadLocation :: "string \<Rightarrow> bool"
  ParseDuration :: "string \<Rightarrow> int option"
  Next :: "Schedule \<Rightarrow> time \<Rightarrow> time"

subsection \<open>Strings\<close>

definition is_space :: "char \<Rightarrow> bool" where
  "is_space c = ((of_char c :: nat) = 32 \<or> (9 \<le> (of_char c :: nat) \<and> (of_char c :: nat) \<le> 13))"

fun fields_from :: "(char \<Rightarrow> bool) \<Rightarrow> string \<Rightarrow> string \<Rightarrow> string list" where
  "fields_from sep cur [] = (if cur = [] then [] else [cur])"
| "fields_from sep cur (c # cs) =
     (if sep c then (if cur = [] then fields_from sep [] cs else cur # fields_from sep [] cs)
      else fields_from sep (cur @ [c]) cs)"

definition FieldsFunc :: "string \<Rightarrow> (char \<Rightarrow> bool) \<Rightarrow> string list" where
  "FieldsFunc s sep = fields_from sep [] s"

definition Fields :: "string \<Rightarrow> string list" where
  "Fields s = FieldsFunc s is_space"

fun split_from :: "char \<Rightarrow> string \<Rightarrow> string \<Rightarrow> string list" where
  "split_from sep cur [] = [cur]"
| "split_from sep cur (c # cs) =
     (if c = sep then cur # split_from sep [] cs else split_from sep (cur @ [c]) cs)"

definition Split :: "string \<Rightarrow> char \<Rightarrow> string list" where
  "Split s sep = split_from sep [] s"

fun Index :: "string \<Rightarrow> char \<Rightarrow> nat option" where
  "Index [] c = None"
| "Index (x # xs) c = (if x = c then Some 0 else map_option Suc (Index xs c))"

definition TrimSpace :: "string \<Rightarrow> string" where
  "TrimSpace s = rev (dropWhile is_space (rev (dropWhile is_space s)))"

definition ToLower :: "string \<Rightarrow> string" where
  "ToLower s = map (\<lambda>c. if 65 \<le> (of_char c :: nat) \<and> (of_char c :: nat) \<le> 90
                          then char_of ((of_char c :: nat) + 32) else c) s"

subsection \<open>Fields\<close>

definition starBit :: int64 where
  "starBit = push_bit 63 1"

text \<open>
  \<open>getBits\<close>: with step 1 by shifts, otherwise by the loop
  \<open>for i := min; i <= max; i += step\<close>. \<open>getRange\<close> rejects a step of 0 before it
  calls \<open>getBits\<close>; the loop below stops at once for such a step.
\<close>

function getBits_loop :: "nat \<Rightarrow> nat \<Rightarrow> nat \<Rightarrow> int64 \<Rightarrow> int64" where
  "getBits_loop i mx step bits =
     (if i \<le> mx \<and> 0 < step then getBits_loop (i + step) mx step (bits OR push_bit i 1) else bits)"
  by pat_completeness auto
termination
  by (relation "measure (\<lambda>(i, mx, step, bits). Suc mx - i)") auto

declare getBits_loop.simps [simp del]

definition getBits :: "nat \<Rightarrow> nat \<Rightarrow> nat \<Rightarrow> int64" where
  "getBits mn mx step =
     (if step = 1 then NOT (push_bit (mx + 1) (- 1)) AND push_bit mn (- 1)
      else getBits_loop mn mx step 0)"

definition all_bits :: "bounds \<Rightarrow> int64" where
  "all_bits r = getBits (bmin r) (bmax r) 1 OR starBit"

definition mustParseInt :: "string \<Rightarrow> error + nat" where
  "mustParseInt expr =
     (case Atoi expr of
        (num, Some err) \<Rightarrow> Inl (ParseIntFailed expr)
      | (num, None) \<Rightarrow> if num < 0 then Inl (NegativeNumber expr) else Inr (nat num))"

definition parseIntOrName :: "string \<Rightarrow> (string \<times> nat) list \<Rightarrow> error + nat" where
  "parseIntOrName expr nms =
     (case map_of nms (ToLower expr) of Some namedInt \<Rightarrow> Inr namedInt | None \<Rightarrow> mustParseInt expr)"

definition getRange :: "string \<Rightarrow> bounds \<Rightarrow> error + int64" where
  "getRange expr r =
     (let rangeAndStep = Split expr CHR ''/'';
          lowAndHigh = Split (hd rangeAndStep) CHR ''-'';
          singleDigit = (length lowAndHigh = 1);
          star = (hd lowAndHigh = ''*'' \<or> hd lowAndHigh = ''?'');
          startEnd =
            (if star then Inr (bmin r, bmax r)
             else case parseIntOrName (hd lowAndHigh) (names r) of
                    Inl e \<Rightarrow> Inl e
                  | Inr start \<Rightarrow>
                      if length lowAndHigh = 1 then Inr (start, start)
                      else if length lowAndHigh = 2 then
                        (case parseIntOrName (lowAndHigh ! 1) (names r) of
                           Inl e \<Rightarrow> Inl e
                         | Inr end \<Rightarrow> Inr (start, end))
                      else Inl (TooManyHyphens expr))
      in case startEnd of
           Inl e \<Rightarrow> Inl e
         | Inr (start, end) \<Rightarrow>
             (let extra = (if star then starBit else 0);
                  stepped =
                    (if length rangeAndStep = 1 then Inr (1, end, extra)
                     else if length rangeAndStep = 2 then
                       (case mustParseInt (rangeAndStep ! 1) of
                          Inl e \<Rightarrow> Inl e
                        | Inr step \<Rightarrow>
                            Inr (step, if singleDigit then bmax r else end,
                                 if step > 1 then 0 else extra))
                     else Inl (TooManySlashes expr))
              in case stepped of
                   Inl e \<Rightarrow> Inl e
                 | Inr (step, end, extra) \<Rightarrow>
                     if start < bmin r then Inl (BelowMinimum start (bmin r))
                     else if end > bmax r then Inl (AboveMaximum end (bmax r))
                     else if start > end then Inl (BeyondEnd start end)
                     else if step = 0 then Inl (ZeroStep expr)
                     else Inr (getBits start end step OR extra)))"

fun getField_loop :: "string list \<Rightarrow> bounds \<Rightarrow> int64 \<Rightarrow> error + int64" where
  "getField_loop [] r bits = Inr bits"
| "getField_loop (expr # ranges) r bits =
     (case getRange expr r of
        Inl e \<Rightarrow> Inl e
      | Inr b \<Rightarrow> getField_loop ranges r (bits OR b))"

definition getField :: "string \<Rightarrow> bounds \<Rightarrow> error + int64" where
  "getField field r = getField_loop (FieldsFunc field (\<lambda>c. c = CHR '','')) r 0"

subsection \<open>Specifications\<close>

definition places :: "ParseOption list" where
  "places = [Second, Minute, Hour, Dom, Month, Dow]"

definition defaults :: "string list" where
  "defaults = [''0'', ''0'', ''0'', ''*'', ''*'', ''*'']"

text \<open>
  The last loop of \<open>normalizeFields\<close>: a place the parser is configured with takes the
  next field, any other place keeps its default.
\<close>

fun expand :: "ParseOption list \<Rightarrow> string list \<Rightarrow> ParseOption list \<Rightarrow> string list \<Rightarrow> string list" where
  "expand [] ds options flds = []"
| "expand (place # ps) ds options flds =
     (if place \<in> set options
      then (case flds of [] \<Rightarrow> [] | f # fs \<Rightarrow> f # expand ps (tl ds) options fs)
      else hd ds # expand ps (tl ds) options flds)"

definition normalizeFields :: "string list \<Rightarrow> ParseOption list \<Rightarrow> error + string list" where
  "normalizeFields flds options =
     (let optionals = (if SecondOptional \<in> set options then 1 else 0)
                      + (if DowOptional \<in> set options then 1 else (0::nat));
          options' = (if SecondOptional \<in> set options then [Second] else [])
                     @ (if DowOptional \<in> set options then [Dow] else []) @ options
      in if optionals > 1 then Inl MultipleOptionals
         else
           let mx = length (filter (\<lambda>place. place \<in> set options') places);
               mn = mx - optionals;
               count = length flds
           in if count < mn \<or> count > mx then Inl (FieldCount mn mx count)
              else
                let flds' =
                      (if mn < mx \<and> length flds = mn then
                         (if DowOptional \<in> set options' then flds @ [defaults ! 5]
                          else (defaults ! 0) # flds)
                       else flds)
                in Inr (expand places defaults options' flds'))"

definition parseDescriptor :: "cronlib \<Rightarrow> string \<Rightarrow> string \<Rightarrow> error + Schedule" where
  "parseDescriptor lib descriptor loc =
     (if descriptor = ''@yearly'' \<or> descriptor = ''@annually'' then
        Inr (SpecSchedule (push_bit (bmin seconds) 1) (push_bit (bmin minutes) 1)
               (push_bit (bmin hours) 1) (push_bit (bmin dom) 1) (push_bit (bmin months) 1)
               (all_bits dow) loc)
      else if descriptor = ''@monthly'' then
        Inr (SpecSchedule (push_bit (bmin seconds) 1) (push_bit (bmin minutes) 1)
               (push_bit (bmin hours) 1) (push_bit (bmin dom) 1) (all_bits months)
               (all_bits dow) loc)
      else if descriptor = ''@weekly'' then
        Inr (SpecSchedule (push_bit (bmin seconds) 1) (push_bit (bmin minutes) 1)
               (push_bit (bmin hours) 1) (all_bits dom) (all_bits months)
               (push_bit (bmin dow) 1) loc)
      else if descriptor = ''@daily'' \<or> descriptor = ''@midnight'' then
        Inr (SpecSchedule (push_bit (bmin seconds) 1) (push_bit (bmin minutes) 1)
               (push_bit (bmin hours) 1) (all_bits dom) (all_bits months) (all_bits dow) loc)
      else if descriptor = ''@hourly'' then
        Inr (SpecSchedule (push_bit (bmin seconds) 1) (push_bit (bmin minutes) 1)
               (all_bits hours) (all_bits dom) (all_bits months) (all_bits dow) loc)
      else if prefix ''@every '' descriptor then
        (case ParseDuration lib (drop 7 descriptor) of
           None \<Rightarrow> Inl (BadDuration descriptor)
         | Some duration \<Rightarrow>
             Inr (ConstantDelaySchedule
                    (if duration < time_Second then time_Second
                     else duration - duration mod time_Second)))
      else Inl (UnrecognizedDescriptor descriptor))"

text \<open>
  \<open>Parser.Parse\<close>. A \<open>TZ=\<close> or \<open>CRON_TZ=\<close> prefix names a location, up to the first
  space; without any space the slice expression of the library is out of bounds and
  panics.
\<close>

definition Parse :: "cronlib \<Rightarrow> ParseOption list \<Rightarrow> string \<Rightarrow> error + Schedule" where
  "Parse lib options spec =
     (if length spec = 0 then Inl EmptySpec
      else
        let located =
              (if prefix ''TZ='' spec \<or> prefix ''CRON_TZ='' spec then
                 (case (Index spec CHR '' '', Index spec CHR ''='') of
                    (Some i, Some eq) \<Rightarrow>
                      (let name = take (i - (eq + 1)) (drop (eq + 1) spec)
                       in if LoadLocation lib name then Inr (name, TrimSpace (drop i spec))
                          else Inl (BadLocation name))
                  | _ \<Rightarrow> Inl SliceBounds)
               else Inr (''Local'', spec))
        in case located of
             Inl e \<Rightarrow> Inl e
           | Inr (loc, spec) \<Rightarrow>
               if prefix ''@'' spec then
                 (if Descriptor \<notin> set options then Inl (DescriptorsNotAccepted spec)
                  else parseDescriptor lib spec loc)
               else
                 (case normalizeFields (Fields spec) options of
                    Inl e \<Rightarrow> Inl e
                  | Inr flds \<Rightarrow>
                      (case getField (flds ! 0) seconds of Inl e \<Rightarrow> Inl e | Inr second \<Rightarrow>
                       case getField (flds ! 1) minutes of Inl e \<Rightarrow> Inl e | Inr minute \<Rightarrow>
                       case getField (flds ! 2) hours of Inl e \<Rightarrow> Inl e | Inr hour \<Rightarrow>
                       case getField (flds ! 3) dom of Inl e \<Rightarrow> Inl e | Inr dayofmonth \<Rightarrow>
                       case getField (flds ! 4) months of Inl e \<Rightarrow> Inl e | Inr month \<Rightarrow>
                       case getField (flds ! 5) dow of Inl e \<Rightarrow> Inl e | Inr dayofweek \<Rightarrow>
                         Inr (SpecSchedule second minute hour dayofmonth month dayofweek loc))))"

definition standardParser :: "ParseOption list" where
  "standardParser = [Minute, Hour, Dom, Month, Dow, Descriptor]"

definition ParseStandard :: "cronlib \<Rightarrow> string \<Rightarrow> error + Schedule" where
  "ParseStandard lib standardSpec = Parse lib standardParser standardSpec"

text \<open>\<open>cron.New(cron.WithSeconds())\<close>: a ticker whose parser has a leading seconds place.\<close>

record Entry =
  EntryID :: nat
  EntrySchedule :: Schedule
  Job :: Task

record Cron =
  entries :: "Entry list"
  nextID :: nat
  parser :: "ParseOption list"

definition WithSeconds :: "ParseOption list" where
  "WithSeconds = [Second, Minute, Hour, Dom, Month, Dow, Descriptor]"

definition New :: "ParseOption list \<Rightarrow> Cron" where
  "New p = \<lparr>entries = [], nextID = 0, parser = p\<rparr>"

text \<open>
  \<open>Cron.AddFunc\<close>: parse with the ticker's own parser, then append an entry. The job is
  the closure of \<open>scheduleCronTask\<close>, which holds the task it was created for.
\<close>

definition AddFunc :: "cronlib \<Rightarrow> Cron \<Rightarrow> string \<Rightarrow> Task \<Rightarrow> error + (nat \<times> Cron)" where
  "AddFunc lib c spec cmd =
     (case Parse lib (parser c) spec of
        Inl err \<Rightarrow> Inl err
      | Inr schedule \<Rightarrow>
          Inr (nextID c + 1,
               c\<lparr>nextID := nextID c + 1,
                 entries := entries c @ [\<lparr>EntryID = nextID c + 1, EntrySchedule = schedule, Job = cmd\<rparr>]\<rparr>))"

section \<open>The store (internal/repository)\<close>

text \<open>
  The two tables are lists of rows. A write takes effect when it is issued: a failing
  database connection is outside the model, so the errors left are those that the data
  decide: the one of \<open>db.First\<close> when no row has the identifier, and the one of an
  insert into \<open>task_results\<close> whose \<open>task_id\<close> refers to no row of \<open>tasks\<close>
  (the foreign key of the schema). \<open>db.Save\<close> writes the whole record over the row
  with its primary key, or inserts it when there is none; \<open>Update\<close> on a column writes
  that column and, as gorm does for a model with an \<open>UpdatedAt\<close> field, the time of the
  update.
\<close>

definition TaskRepository_GetByID :: "Task list \<Rightarrow> uuid \<Rightarrow> error + Task" where
  "TaskRepository_GetByID rows tid =
     (case find (\<lambda>row. ID row = tid) rows of None \<Rightarrow> Inl RecordNotFound | Some task \<Rightarrow> Inr task)"

definition Save :: "Task list \<Rightarrow> Task \<Rightarrow> Task list" where
  "Save rows task =
     (if list_ex (\<lambda>row. ID row = ID task) rows
      then map (\<lambda>row. if ID row = ID task then task else row) rows
      else rows @ [task])"

definition TaskRepository_Update :: "Task list \<Rightarrow> Task \<Rightarrow> time \<Rightarrow> Task list" where
  "TaskRepository_Update rows task now = Save rows (task\<lparr>UpdatedAt := now\<rparr>)"




definition ResultRepository_Create ::
  "TaskResult list \<Rightarrow> Task list \<Rightarrow> TaskResult \<Rightarrow> error + TaskResult list" where
  "ResultRepository_Create rows task_rows result =
     (if list_ex (\<lambda>row. ID row = TaskID result) task_rows then Inr (rows @ [result])
      else Inl ForeignKeyViolation)"

section \<open>Create-time validation (internal/handlers)\<close>

text \<open>The error of \<open>validateTrigger\<close> is a \<open>gin.Error\<close>; its \<open>Meta\<close> text is kept.\<close>

definition validateTrigger :: "cronlib \<Rightarrow> time \<Rightarrow> CreateTaskTrigger \<Rightarrow> string option" where
  "validateTrigger lib now trigger =
     (if Type trigger = TriggerTypeOneOff then
        (case DateTime trigger of
           None \<Rightarrow> Some ''datetime is required for one-off triggers''
         | Some dt \<Rightarrow> if dt < now then Some ''datetime must be in the future'' else None)
      else if Type trigger = TriggerTypeCron then
        (case Cron trigger of
           None \<Rightarrow> Some ''cron expression is required for cron triggers''
         | Some expr \<Rightarrow>
             if expr = '''' then Some ''cron expression is required for cron triggers''
             else (case ParseStandard lib expr of
                     Inl err \<Rightarrow> Some ''invalid cron expression''
                   | Inr schedule \<Rightarrow> None))
      else None)"

section \<open>The scheduler (internal/scheduler)\<close>

text \<open>
  The state of a scheduler and of what it shares: the two tables, the task log (absent
  when \<open>main\<close> could not open the log file and passed a nil logger), the metrics, the
  cron ticker, the map of one-off timers, every timer created with \<open>time.AfterFunc\<close>
  (a handle is its position), the workers started with \<open>go s.executeTask(task)\<close> that
  have not run yet, and the world. \<open>time.Now()\<close> reads the clock of the world; the
  clock moves while an attempt is made and during a sleep, and stands still during the
  operations of the store and of the scheduler.
\<close>

record Timer =
  timer_task :: Task
  due :: time
  active :: bool

record Scheduler =
  tasks :: "Task list"
  results :: "TaskResult list"
  taskLogger :: "(uuid \<times> bool) list option"
  metrics :: Metrics
  cron :: Cron
  oneOffTasks :: "uuid \<rightharpoonup> nat"
  timers :: "Timer list"
  goroutines :: "Task list"
  world :: world

record env =
  env_net :: network
  env_lib :: cronlib

definition Sleep :: "int \<Rightarrow> world \<Rightarrow> world" where
  "Sleep d w = w\<lparr>clock := clock w + d\<rparr>"

definition NewScheduler ::
  "Task list \<Rightarrow> TaskResult list \<Rightarrow> (uuid \<times> bool) list option \<Rightarrow> Metrics \<Rightarrow> world \<Rightarrow> Scheduler" where
  "NewScheduler taskRepo resultRepo logger m w =
     \<lparr>tasks = taskRepo, results = resultRepo, taskLogger = logger, metrics = m,
      cron = New WithSeconds, oneOffTasks = Map.empty, timers = [], goroutines = [], world = w\<rparr>"

text \<open>The executor that \<open>NewScheduler\<close> installs: the HTTP executor, retried.\<close>

definition retryExecutor :: "network \<Rightarrow> world RetryExecutor" where
  "retryExecutor nw = NewRetryExecutor (HTTPExecutor_Execute nw) 2 (5 * time_Second)"


text \<open>
  \<open>executeTask\<close>, the dispatch body. It panics when the executor returns nil, when the
  metrics divide by zero and when the logger is nil. An error of the store is logged
  and the body goes on.
\<close>

definition executeTask :: "env \<Rightarrow> Scheduler \<Rightarrow> Task \<Rightarrow> error + Scheduler" where
  "executeTask env s task =
     (let startTime = clock (world s)
      in case RetryExecutor_Execute (retryExecutor (env_net env)) Sleep task (world s) of
           (None, w) \<Rightarrow> Inl NilDereference
         | (Some result, w) \<Rightarrow>
             (let result = result\<lparr>RunAt := startTime, TaskID := ID task\<rparr>;
                  duration = (word_of_int (DurationMs result) :: int64) * 1000000
              in case RecordTaskExecution (metrics s) duration (Success result) (clock w) of
                   Inl e \<Rightarrow> Inl e
                 | Inr m \<Rightarrow>
                     (case taskLogger s of
                        None \<Rightarrow> Inl NilDereference
                      | Some written \<Rightarrow>
                          (let s = s\<lparr>world := w, metrics := m,
                                     taskLogger := Some (written @ [(ID task, Success result)]),
                                     results :=
                                       (case ResultRepository_Create (results s) (tasks s) result of
                                          Inl err \<Rightarrow> results s
                                        | Inr rows \<Rightarrow> rows)\<rparr>
                           in if TriggerType task = TriggerTypeOneOff
                              then Inr (s\<lparr>tasks := TaskRepository_Update (tasks s)
                                                      (task\<lparr>Status := TaskStatusCompleted\<rparr>) (clock w)\<rparr>)
                              else Inr s))))"

definition scheduleOneOffTask :: "Scheduler \<Rightarrow> Task \<Rightarrow> error option \<times> Scheduler" where
  "scheduleOneOffTask s task =
     (case TriggerTime task of
        None \<Rightarrow> (None, s)
      | Some triggerTime \<Rightarrow>
          (let s = (case oneOffTasks s (ID task) of
                      Some h \<Rightarrow> s\<lparr>timers := (timers s)[h := (timers s ! h)\<lparr>active := False\<rparr>]\<rparr>
                    | None \<Rightarrow> s);
               duration = triggerTime - clock (world s)
           in if duration \<le> 0 then (None, s\<lparr>goroutines := goroutines s @ [task]\<rparr>)
              else (None, s\<lparr>timers := timers s @ [\<lparr>timer_task = task, due = clock (world s) + duration, active = True\<rparr>],
                              oneOffTasks := (oneOffTasks s)(ID task \<mapsto> length (timers s))\<rparr>)))"

definition scheduleCronTask :: "env \<Rightarrow> Scheduler \<Rightarrow> Task \<Rightarrow> error option \<times> Scheduler" where
  "scheduleCronTask env s task =
     (case CronExpr task of
        None \<Rightarrow> (None, s)
      | Some expr \<Rightarrow>
          (case AddFunc (env_lib env) (cron s) expr task of
             Inl err \<Rightarrow> (Some err, s)
           | Inr (entryID, c) \<Rightarrow> (None, s\<lparr>cron := c\<rparr>)))"

definition ScheduleTask :: "env \<Rightarrow> Scheduler \<Rightarrow> Task \<Rightarrow> error option \<times> Scheduler" where
  "ScheduleTask env s task =
     (if TriggerType task = TriggerTypeOneOff then scheduleOneOffTask s task
      else if TriggerType task = TriggerTypeCron then scheduleCronTask env s task
      else (None, s))"



text \<open>
  The function given to \<open>time.AfterFunc\<close> by \<open>scheduleOneOffTask\<close>, run by the runtime
  for the timer with handle \<open>h\<close> once it is due, unless the timer was stopped.
\<close>

definition timer_callback :: "env \<Rightarrow> Scheduler \<Rightarrow> nat \<Rightarrow> error + Scheduler" where
  "timer_callback env s h =
     (if h < length (timers s) \<and> active (timers s ! h) \<and> due (timers s ! h) \<le> clock (world s) then
        (let task = timer_task (timers s ! h);
             s = s\<lparr>timers := (timers s)[h := (timers s ! h)\<lparr>active := False\<rparr>]\<rparr>
         in case executeTask env s task of
              Inl e \<Rightarrow> Inl e
            | Inr s \<Rightarrow> Inr (s\<lparr>oneOffTasks := (oneOffTasks s)(ID task := None)\<rparr>))
      else Inr s)"








section \<open>The task service (internal/service)\<close>


section \<open>Example values\<close>

text \<open>The task of scenario S1 of the specification, and a world at the epoch.\<close>

definition ping_task :: Task where
  "ping_task = \<lparr>ID = 1, Name = ''ping'', TriggerType = TriggerTypeOneOff,
     TriggerTime = Some 2000000000, CronExpr = None, Method = ''GET'', URL = ''http://mock/ok'',
     Headers = [], Payload = None, Status = TaskStatusScheduled, CreatedAt = 0, UpdatedAt = 0,
     NextRun = Some 2000000000\<rparr>"

definition world0 :: world where
  "world0 = \<lparr>clock = 0, attempts = 0, drawn = 0\<rparr>"

text \<open>An attempt that is answered with the given status and whose body is read whole.\<close>

definition answered :: "int \<Rightarrow> string \<Rightarrow> attempt" where
  "answered code body =
     \<lparr>prepared = None,
      answer = Inr \<lparr>resp_StatusCode = code, resp_Header = [], resp_Body = Inr body\<rparr>,
      created = 0, elapsed = 0, returned = 0\<rparr>"

text \<open>An attempt that is answered with the given status and whose body cannot be read.\<close>

definition body_lost :: "int \<Rightarrow> string \<Rightarrow> attempt" where
  "body_lost code err =
     \<lparr>prepared = None,
      answer = Inr \<lparr>resp_StatusCode = code, resp_Header = [], resp_Body = Inl err\<rparr>,
      created = 0, elapsed = 0, returned = 0\<rparr>"

text \<open>
  A library whose only time zone is UTC, which parses no duration, and whose \<open>Next\<close> is
  the start of the following minute: the next activation of \<open>* * * * *\<close>.
\<close>

definition every_minute :: "Schedule \<Rightarrow> time \<Rightarrow> time" where
  "every_minute schedule t = (t div time_Minute + 1) * time_Minute"

definition lib0 :: cronlib where
  "lib0 = \<lparr>LoadLocation = (\<lambda>name. name = ''UTC''), ParseDuration = (\<lambda>s. None), Next = every_minute\<rparr>"

text \<open>An endpoint that answers every call with 200, and one that answers with 500.\<close>

definition env_ok :: env where
  "env_ok = \<lparr>env_net = (\<lambda>n t. answered 200 ''ok''), env_lib = lib0\<rparr>"

definition env_down :: env where
  "env_down = \<lparr>env_net = (\<lambda>n t. answered 500 ''down''), env_lib = lib0\<rparr>"

text \<open>
  A one-off task that is due at the epoch, a cron task for every minute whose next run
  has not been computed, the same with a next run in the past, and a scheduler over a
  given table of tasks.
\<close>

definition due_task :: Task where
  "due_task = ping_task\<lparr>TriggerTime := Some 0, NextRun := Some 0\<rparr>"

definition minute_task :: Task where
  "minute_task = \<lparr>ID = 2, Name = ''tick'', TriggerType = TriggerTypeCron,
     TriggerTime = None, CronExpr = Some ''* * * * *'', Method = ''GET'', URL = ''http://mock/ok'',
     Headers = [], Payload = None, Status = TaskStatusScheduled, CreatedAt = 0, UpdatedAt = 0,
     NextRun = None\<rparr>"

definition late_task :: Task where
  "late_task = minute_task\<lparr>ID := 3, NextRun := Some (- 1)\<rparr>"

definition scheduler0 :: "Task list \<Rightarrow> Scheduler" where
  "scheduler0 rows = NewScheduler rows [] (Some []) NewMetrics world0"


section \<open>Properties of the retry decorator\<close>

lemmas Execute_loop_0 = Execute_loop.simps [where attempt = 0]
lemmas Execute_loop_1 = Execute_loop.simps [where attempt = 1]
lemmas Execute_loop_2 = Execute_loop.simps [where attempt = 2]
lemmas Execute_loop_3 = Execute_loop.simps [where attempt = 3]

lemma retry_journal:
  assumes "RetryExecutor_Execute (NewRetryExecutor (journalled e) 2 d) (journalled_sleep sl) task (w, [])
             = (res, (w', j))"
  shows "j \<noteq> [] \<and> length j \<le> 3 \<and> res = Some (last j) \<and>
         list_all (\<lambda>r. \<not> Success r) (butlast j) \<and> (Success (last j) \<or> length j = 3)"
  using assms unfolding RetryExecutor_Execute_def
  apply (simp add: Execute_loop_0 Execute_loop_1 Execute_loop_2 Execute_loop_3 NewRetryExecutor_def
      journalled_def journalled_sleep_def split: prod.splits if_splits)
  apply auto
  done

text \<open>
  C2. With \<open>maxRetries = 2\<close> and \<open>retryDelay\<close> = 5 seconds, for every wrapped executor,
  every sleep, every task and every state of the world: the journal of the calls made to
  the wrapped executor has between one and three entries; every call before the last one
  returned a result without success, so the decorator returns right after the first
  successful attempt; when the last call had no success either, three calls were made;
  and the decorator returns the result of the last call.
\<close>

theorem RetryExecutor_three_attempts:
  "(let out = RetryExecutor_Execute (NewRetryExecutor (journalled e) 2 (5 * time_Second))
                (journalled_sleep sl) task (w, []);
        calls = snd (snd out)
    in calls \<noteq> [] \<and> length calls \<le> 3 \<and> fst out = Some (last calls) \<and>
       list_all (\<lambda>r. \<not> Success r) (butlast calls) \<and>
       (Success (last calls) \<or> length calls = 3))"
proof -
  obtain res w' j where eq:
    "RetryExecutor_Execute (NewRetryExecutor (journalled e) 2 (5 * time_Second))
       (journalled_sleep sl) task (w, []) = (res, (w', j))"
    by (metis surj_pair)
  from retry_journal [OF eq] show ?thesis
    by (simp add: eq Let_def)
qed

section \<open>Properties of the single-attempt executor\<close>

lemma Execute_Success_iff:
  "Success (fst (HTTPExecutor_Execute nw task w)) \<longleftrightarrow>
     prepared (nw (attempts w) task) = None \<and>
     (\<exists>resp. answer (nw (attempts w) task) = Inr resp \<and>
        200 \<le> resp_StatusCode resp \<and> resp_StatusCode resp < 300)"
  by (auto simp: HTTPExecutor_Execute_def Let_def split: option.splits sum.splits)

lemma Execute_ErrorMessage_iff:
  "ErrorMessage (fst (HTTPExecutor_Execute nw task w)) = None \<longleftrightarrow>
     prepared (nw (attempts w) task) = None \<and>
     (\<exists>resp body. answer (nw (attempts w) task) = Inr resp \<and> resp_Body resp = Inr body \<and>
        200 \<le> resp_StatusCode resp \<and> resp_StatusCode resp < 300)"
  by (auto simp: HTTPExecutor_Execute_def Let_def split: option.splits sum.splits)

text \<open>
  C3. An attempt that is answered with status 200 and whose body cannot be read: the
  result has \<open>Success = true\<close>, although a transport error occurred, and it carries an
  error message, although it is a success. \<open>Execute\<close> returns from the failed read
  without taking back the \<open>Success\<close> it had set from the status code. The two lemmas
  above say when a result is a success and when it has no error message: the two
  differ exactly in this case.
\<close>

theorem Execute_unreadable_body_is_success:
  "Success (fst (HTTPExecutor_Execute (\<lambda>n t. body_lost 200 ''unexpected EOF'') ping_task world0)) = True \<and>
   ErrorMessage (fst (HTTPExecutor_Execute (\<lambda>n t. body_lost 200 ''unexpected EOF'') ping_task world0))
     = Some ''Failed to read response body: unexpected EOF''"
  by (simp add: HTTPExecutor_Execute_def body_lost_def Let_def)

text \<open>
  C4, as stated, fails twice. A body of 10,001 bytes is stored with 10,015 bytes, more
  than 10,000; and a body that is the marker itself, 15 bytes long, is stored as it is,
  so it ends with the marker without having exceeded the cap.
\<close>

theorem stored_body_counterexample:
  "\<not> (length (the (ResponseBody (fst (HTTPExecutor_Execute
          (\<lambda>n t. answered 200 (replicate 10001 CHR ''a'')) ping_task world0)))) \<le> 10000) \<and>
   \<not> (suffix ''... (truncated)'' (the (ResponseBody (fst (HTTPExecutor_Execute
          (\<lambda>n t. answered 200 ''... (truncated)'') ping_task world0))))
        \<longleftrightarrow> length ''... (truncated)'' > 10000)"
  by (simp add: HTTPExecutor_Execute_def answered_def Let_def store_body_def)

text \<open>
  C4, amended. For every response whose body \<open>b\<close> the executor has read, the stored body
  is \<open>b\<close> when \<open>b\<close> has at most 10,000 bytes, and otherwise the first 10,000 bytes of
  \<open>b\<close> followed by the marker; so a stored body has at most 10,015 bytes, and it ends
  with the marker whenever \<open>b\<close> exceeded the cap.
\<close>

theorem stored_body_truncation:
  assumes "prepared (nw (attempts w) task) = None"
    and "answer (nw (attempts w) task) = Inr resp"
    and "resp_Body resp = Inr b"
  shows "\<exists>stored. ResponseBody (fst (HTTPExecutor_Execute nw task w)) = Some stored \<and>
     stored = (if length b \<le> 10000 then b else take 10000 b @ ''... (truncated)'') \<and>
     length stored \<le> 10015 \<and>
     (length b > 10000 \<longrightarrow> suffix ''... (truncated)'' stored)"
  using assms
  by (auto simp: HTTPExecutor_Execute_def Let_def store_body_def suffix_def split: if_splits)

theorem stored_body_truncation_witness:
  "\<exists>stored. ResponseBody (fst (HTTPExecutor_Execute
       (\<lambda>n t. answered 200 (replicate 10001 CHR ''a'')) ping_task world0)) = Some stored \<and>
     stored = replicate 10000 CHR ''a'' @ ''... (truncated)'' \<and> length stored \<le> 10015 \<and>
     suffix ''... (truncated)'' stored"
  using stored_body_truncation [of "\<lambda>n t. answered 200 (replicate 10001 CHR ''a'')" world0 ping_task
      "\<lparr>resp_StatusCode = 200, resp_Header = [], resp_Body = Inr (replicate 10001 CHR ''a'')\<rparr>"
      "replicate 10001 CHR ''a''"]
  by (simp add: answered_def)

section \<open>Properties of the paging\<close>

lemma Atoi_101: "Atoi ''101'' = (101, None)"
  by (simp add: Atoi_def is_digit_def decimal_val_def digit_val_def)

text \<open>
  C8, as stated, fails: a requested limit of 101 gives a page size of 10, not of 100.
\<close>

theorem limit_above_100_counterexample:
  "snd (GetTasks_paging None (Some ''101'')) \<noteq> 100"
  by (simp add: GetTasks_paging_def DefaultQuery_def Atoi_101 Let_def)

text \<open>
  C8, amended. For each of the three list endpoints the effective page size is the
  requested limit when that lies in [1, 100], and the default 10 otherwise: for a
  requested limit of 0 or below, and for one above 100 alike. The requested limit is
  what \<open>strconv.Atoi\<close> reads from the query value, or from \<open>10\<close> without one.
\<close>

theorem effective_limit:
  "snd (GetTasks_paging pq lq)
     = (let n = fst (Atoi (DefaultQuery lq ''10'')) in if 1 \<le> n \<and> n \<le> 100 then n else 10) \<and>
   snd (GetTaskResults_paging pq lq)
     = (let n = fst (Atoi (DefaultQuery lq ''10'')) in if 1 \<le> n \<and> n \<le> 100 then n else 10) \<and>
   snd (GetResults_paging pq lq)
     = (let n = fst (Atoi (DefaultQuery lq ''10'')) in if 1 \<le> n \<and> n \<le> 100 then n else 10)"
  by (auto simp: GetTasks_paging_def GetTaskResults_paging_def GetResults_paging_def Let_def)

section \<open>Properties of the metrics\<close>

lemma metrics_run_snoc:
  "metrics_run m (cs @ [c])
     = (case metrics_run m cs of Inl e \<Rightarrow> Inl e | Inr m' \<Rightarrow> metrics_run m' [c])"
  by (induction m cs rule: metrics_run.induct) (auto split: sum.splits)

lemma metrics_fresh:
  "metrics_run NewMetrics cs = Inr m \<Longrightarrow> TotalTasksExecuted m = 0 \<Longrightarrow> AverageExecutionTime m = 0"
proof (induction cs arbitrary: m rule: rev_induct)
  case Nil
  then show ?case by (auto simp: NewMetrics_def)
next
  case (snoc c cs)
  then show ?case
    by (cases c)
      (auto simp: metrics_run_snoc RecordTaskExecution_def int64_div_def Reset_def Let_def
        split: sum.splits if_splits)
qed

text \<open>
  C10. For every \<open>Metrics\<close> value that the program can hold (made by \<open>NewMetrics\<close>, changed
  by \<open>RecordTaskExecution\<close> and \<open>Reset\<close>): \<open>GetMetrics\<close> always reports a number as
  success rate, never the outcome of a division by zero; with no execution counted the
  rate is 0 and the average is 0 ms; with a positive count the rate is
  \<open>SuccessfulTasks / TotalTasksExecuted * 100\<close>.
\<close>

theorem GetMetrics_success_rate:
  assumes "metrics_run NewMetrics cs = Inr m"
  shows "success_rate_percent (GetMetrics m) \<noteq> None \<and>
         (TotalTasksExecuted m = 0 \<longrightarrow>
            success_rate_percent (GetMetrics m) = Some 0 \<and> average_execution_ms (GetMetrics m) = 0) \<and>
         (0 <s TotalTasksExecuted m \<longrightarrow>
            success_rate_percent (GetMetrics m)
              = Some (real_of_int (sint (SuccessfulTasks m))
                       / real_of_int (sint (TotalTasksExecuted m)) * 100))"
proof -
  have zero: "TotalTasksExecuted m = 0 \<Longrightarrow> AverageExecutionTime m = 0"
    using metrics_fresh [OF assms] .
  have pos: "0 <s TotalTasksExecuted m \<Longrightarrow> real_of_int (sint (TotalTasksExecuted m)) \<noteq> 0"
    by (simp add: word_sless_alt del: of_int_sint)
  show ?thesis
    using zero pos
    by (auto simp add: GetMetrics_def Let_def float_div_def float64_def simp del: of_int_sint
        split: option.splits)
qed

theorem GetMetrics_success_rate_witness:
  "metrics_run NewMetrics [Record 3000000 True 0, Record 5000000 False 1] = Inr
     \<lparr>TotalTasksExecuted = 2, SuccessfulTasks = 1, FailedTasks = 1, TotalExecutionTime = 8000000,
      AverageExecutionTime = 4000000, TasksPerMinute = 2, lastMinuteExecutions = [0, 1]\<rparr> \<and>
   success_rate_percent (GetMetrics
     \<lparr>TotalTasksExecuted = 2, SuccessfulTasks = 1, FailedTasks = 1, TotalExecutionTime = 8000000,
      AverageExecutionTime = 4000000, TasksPerMinute = 2, lastMinuteExecutions = [0, 1]\<rparr>) = Some 50 \<and>
   metrics_run NewMetrics [] = Inr NewMetrics \<and>
   success_rate_percent (GetMetrics NewMetrics) = Some 0 \<and>
   average_execution_ms (GetMetrics NewMetrics) = 0"
  using GetMetrics_success_rate [of "[Record 3000000 True 0, Record 5000000 False 1]"]
    GetMetrics_success_rate [of "[]" NewMetrics]
  by (simp add: RecordTaskExecution_def int64_div_def NewMetrics_def Let_def time_Minute_def
      time_Second_def GetMetrics_def float_div_def float64_def word_sless_alt)

section \<open>Properties of the cron parsers\<close>

lemma Fields_stars: "Fields ''* * * * *'' = [''*'', ''*'', ''*'', ''*'', ''*'']"
  by code_simp

lemma normalize_std: "normalizeFields [''*'', ''*'', ''*'', ''*'', ''*''] standardParser = Inr [''0'', ''*'', ''*'', ''*'', ''*'', ''*'']"
  by code_simp

lemma normalize_sec: "normalizeFields [''*'', ''*'', ''*'', ''*'', ''*''] WithSeconds = Inl (FieldCount 6 6 5)"
  by code_simp

lemma getField_star: "\<not> isl (getField ''0'' seconds)" "\<not> isl (getField ''*'' minutes)" "\<not> isl (getField ''*'' hours)"
     "\<not> isl (getField ''*'' dom)" "\<not> isl (getField ''*'' months)" "\<not> isl (getField ''*'' dow)"
  by code_simp+

lemma Parse_stars_standard: "\<not> isl (ParseStandard lib ''* * * * *'')"
  using getField_star
  by (auto simp add: ParseStandard_def Parse_def Fields_stars normalize_std Let_def split: sum.splits)

lemma Parse_stars_seconds: "Parse lib WithSeconds ''* * * * *'' = Inl (FieldCount 6 6 5)"
  by (simp add: Parse_def Fields_stars normalize_sec Let_def)

lemma normalize_standard_five: "normalizeFields f standardParser = Inr x \<Longrightarrow> length f = 5"
  by (simp add: normalizeFields_def standardParser_def places_def Let_def split: if_splits)

lemma normalize_seconds_five: "length f = 5 \<Longrightarrow> normalizeFields f WithSeconds = Inl (FieldCount 6 6 5)"
  by (simp add: normalizeFields_def WithSeconds_def places_def Let_def)

lemma accepted_by_both_is_descriptor:
  assumes "ParseStandard lib e = Inr a" and "Parse lib WithSeconds e = Inr b"
  shows "\<exists>d loc. prefix ''@'' d \<and> parseDescriptor lib d loc = Inr b \<and> a = b"
  using assms
  by (auto simp add: ParseStandard_def Parse_def Let_def normalize_seconds_five
      dest!: normalize_standard_five split: if_splits sum.splits prod.splits option.splits)

text \<open>
  C1. The expression \<open>* * * * *\<close> passes create-time validation, whatever the library's
  parameters are; \<open>ScheduleTask\<close> on a cron task with this expression, in a scheduler
  made by \<open>NewScheduler\<close>, returns the error of the ticker's parser, which wants six
  fields and finds five, and registers nothing. By \<open>accepted_by_both_is_descriptor\<close>
  above, the same holds for every validated expression other than an \<open>@\<close> descriptor.
\<close>

theorem five_field_expression_rejected:
  "validateTrigger lib now \<lparr>Type = TriggerTypeCron, DateTime = None, Cron = Some ''* * * * *''\<rparr> = None \<and>
   ScheduleTask env (NewScheduler taskRepo resultRepo logger m w)
      (task\<lparr>TriggerType := TriggerTypeCron, CronExpr := Some ''* * * * *''\<rparr>)
     = (Some (FieldCount 6 6 5), NewScheduler taskRepo resultRepo logger m w)"
  using Parse_stars_standard [of lib]
  by (auto simp add: validateTrigger_def ScheduleTask_def scheduleCronTask_def AddFunc_def NewScheduler_def New_def
      Parse_stars_seconds TriggerTypeCron_def TriggerTypeOneOff_def split: sum.splits)

section \<open>Properties of the scheduler\<close>

text \<open>
  C9. \<open>ScheduleTask\<close> returns no error and leaves the whole state of the scheduler as it
  was (no timer, no cron entry, no worker) for a task whose trigger type is neither
  \<open>one-off\<close> nor \<open>cron\<close>, and for a one-off task without trigger time.
\<close>

theorem ScheduleTask_ignores_malformed:
  "(TriggerType task \<noteq> TriggerTypeOneOff \<and> TriggerType task \<noteq> TriggerTypeCron \<longrightarrow>
      ScheduleTask env s task = (None, s)) \<and>
   (TriggerType task = TriggerTypeOneOff \<and> TriggerTime task = None \<longrightarrow>
      ScheduleTask env s task = (None, s))"
  by (simp add: ScheduleTask_def scheduleOneOffTask_def)

theorem ScheduleTask_ignores_malformed_witness:
  "ScheduleTask env_ok (scheduler0 []) (ping_task\<lparr>TriggerType := ''webhook''\<rparr>) = (None, scheduler0 []) \<and>
   ScheduleTask env_ok (scheduler0 []) (ping_task\<lparr>TriggerTime := None\<rparr>) = (None, scheduler0 [])"
  using ScheduleTask_ignores_malformed [of "ping_task\<lparr>TriggerType := ''webhook''\<rparr>" env_ok "scheduler0 []"]
    ScheduleTask_ignores_malformed [of "ping_task\<lparr>TriggerTime := None\<rparr>" env_ok "scheduler0 []"]
  by (simp add: ping_task_def TriggerTypeOneOff_def TriggerTypeCron_def)

lemma retry_returns_result:
  "\<exists>result w'. RetryExecutor_Execute (retryExecutor nw) Sleep task w = (Some result, w')"
  unfolding RetryExecutor_Execute_def retryExecutor_def
  by (simp add: Execute_loop_0 Execute_loop_1 Execute_loop_2 Execute_loop_3 NewRetryExecutor_def split: prod.splits)

lemma find_Save: "find (\<lambda>row. ID row = ID task) (Save rows task) = Some task"
proof -
  have a: "find (\<lambda>row. ID row = ID task) (rows @ [task]) = Some task" if "\<not> list_ex (\<lambda>row. ID row = ID task) rows"
    using that by (induction rows) auto
  have b: "find (\<lambda>row. ID row = ID task) (map (\<lambda>row. if ID row = ID task then task else row) rows) = Some task"
    if "list_ex (\<lambda>row. ID row = ID task) rows"
    using that by (induction rows) auto
  show ?thesis using a b by (simp add: Save_def)
qed

lemma GetByID_Update:
  "TaskRepository_GetByID (TaskRepository_Update rows task now) (ID task) = Inr (task\<lparr>UpdatedAt := now\<rparr>)"
  using find_Save [of "task\<lparr>UpdatedAt := now\<rparr>" rows]
  by (simp add: TaskRepository_GetByID_def TaskRepository_Update_def)

lemma executeTask_cases:
  assumes "taskLogger s = Some written" and "TotalTasksExecuted (metrics s) \<noteq> - 1"
  shows "\<exists>r w m. executeTask env s task =
           Inr (s\<lparr>world := w, metrics := m, taskLogger := Some (written @ [(ID task, Success r)]),
                 results := (if list_ex (\<lambda>row. ID row = ID task) (tasks s) then results s @ [r]
                             else results s),
                 tasks := (if TriggerType task = TriggerTypeOneOff
                           then TaskRepository_Update (tasks s) (task\<lparr>Status := TaskStatusCompleted\<rparr>) (clock w)
                           else tasks s)\<rparr>) \<and> TaskID r = ID task"
proof -
  obtain result w where r: "RetryExecutor_Execute (retryExecutor (env_net env)) Sleep task (world s) = (Some result, w)"
    using retry_returns_result by blast
  have nz: "TotalTasksExecuted (metrics s) + 1 \<noteq> 0"
    using assms(2) by (metis add_eq_0_iff2)
  obtain m where m: "RecordTaskExecution (metrics s) (word_of_int (DurationMs result) * 1000000) (Success result) (clock w) = Inr m"
    using nz by (auto simp: RecordTaskExecution_def int64_div_def Let_def)
  let ?r = "result\<lparr>RunAt := clock (world s), TaskID := ID task\<rparr>"
  have "executeTask env s task =
           Inr (s\<lparr>world := w, metrics := m, taskLogger := Some (written @ [(ID task, Success ?r)]),
                 results := (if list_ex (\<lambda>row. ID row = ID task) (tasks s) then results s @ [?r]
                             else results s),
                 tasks := (if TriggerType task = TriggerTypeOneOff
                           then TaskRepository_Update (tasks s) (task\<lparr>Status := TaskStatusCompleted\<rparr>) (clock w)
                           else tasks s)\<rparr>)"
    using assms(1) r m by (simp add: executeTask_def Let_def ResultRepository_Create_def)
  moreover have "TaskID ?r = ID task" by simp
  ultimately show ?thesis by blast
qed

text \<open>
  C5. With a task logger and a counter of executions that is not about to wrap to zero
  (otherwise the dispatch body panics), the dispatch body completes, whatever the
  endpoint answers: when the task has a row in the store, it appends one result for
  the task, successful or not; for a one-off task the row of the task in the store then
  has status \<open>completed\<close>; for a cron task the table of tasks, and so the task's
  status, is as before.
\<close>

theorem executeTask_status:
  assumes "taskLogger s \<noteq> None" and "TotalTasksExecuted (metrics s) \<noteq> - 1"
  shows "\<exists>s' r. executeTask env s task = Inr s' \<and> TaskID r = ID task \<and>
           (list_ex (\<lambda>row. ID row = ID task) (tasks s) \<longrightarrow> results s' = results s @ [r]) \<and>
           (TriggerType task = TriggerTypeOneOff \<longrightarrow>
              (\<exists>row. TaskRepository_GetByID (tasks s') (ID task) = Inr row \<and> Status row = TaskStatusCompleted)) \<and>
           (TriggerType task = TriggerTypeCron \<longrightarrow> tasks s' = tasks s)"
proof -
  obtain written where l: "taskLogger s = Some written" using assms(1) by auto
  from executeTask_cases [OF l assms(2), of env task]
  obtain r w m where e: "executeTask env s task =
           Inr (s\<lparr>world := w, metrics := m, taskLogger := Some (written @ [(ID task, Success r)]),
                 results := (if list_ex (\<lambda>row. ID row = ID task) (tasks s) then results s @ [r]
                             else results s),
                 tasks := (if TriggerType task = TriggerTypeOneOff
                           then TaskRepository_Update (tasks s) (task\<lparr>Status := TaskStatusCompleted\<rparr>) (clock w)
                           else tasks s)\<rparr>)" and t: "TaskID r = ID task"
    by blast
  have g: "TaskRepository_GetByID (TaskRepository_Update (tasks s) (task\<lparr>Status := TaskStatusCompleted\<rparr>) (clock w)) (ID task)
            = Inr (task\<lparr>Status := TaskStatusCompleted, UpdatedAt := clock w\<rparr>)"
    using GetByID_Update [of "tasks s" "task\<lparr>Status := TaskStatusCompleted\<rparr>" "clock w"] by simp
  show ?thesis
    using e t g by (auto simp: TriggerTypeOneOff_def TriggerTypeCron_def)
qed

lemma retry_down:
  "fst (RetryExecutor_Execute (retryExecutor (\<lambda>n t. answered 500 ''down'')) Sleep task w) =
     Some \<lparr>ResultID = drawn w + 2, TaskID = ID task, RunAt = clock w + 10 * time_Second,
           StatusCode = Some 500, Success = False, ResponseHeaders = [], ResponseBody = Some ''down'',
           ErrorMessage = Some ''HTTP request returned status 500'', DurationMs = 0,
           ResultCreatedAt = 0\<rparr>"
  unfolding RetryExecutor_Execute_def retryExecutor_def
  by (simp add: Execute_loop_0 Execute_loop_1 Execute_loop_2 Execute_loop_3 NewRetryExecutor_def
       HTTPExecutor_Execute_def answered_def Let_def Sleep_def store_body_def first_values_def
       Milliseconds_def show_int_def show_nat.simps digit_char_def split: prod.splits)

theorem executeTask_status_witness:
  "map_option Success (fst (RetryExecutor_Execute (retryExecutor (env_net env_down)) Sleep due_task world0))
     = Some False \<and>
   taskLogger (scheduler0 [due_task]) \<noteq> None \<and>
   TotalTasksExecuted (metrics (scheduler0 [due_task])) \<noteq> - 1 \<and>
   TriggerType due_task = TriggerTypeOneOff \<and>
   (\<exists>s' r. executeTask env_down (scheduler0 [due_task]) due_task = Inr s' \<and>
       TaskID r = 1 \<and> results s' = [r] \<and>
       (\<exists>row. TaskRepository_GetByID (tasks s') 1 = Inr row \<and> Status row = TaskStatusCompleted)) \<and>
   TriggerType late_task = TriggerTypeCron \<and>
   (\<exists>s' r. executeTask env_down (scheduler0 [late_task]) late_task = Inr s' \<and>
       TaskID r = 3 \<and> results s' = [r] \<and> tasks s' = [late_task])"
  using executeTask_status [of "scheduler0 [due_task]" env_down due_task]
    executeTask_status [of "scheduler0 [late_task]" env_down late_task]
  by (simp add: scheduler0_def NewScheduler_def NewMetrics_def due_task_def late_task_def minute_task_def ping_task_def
      TriggerTypeOneOff_def TriggerTypeCron_def env_down_def retry_down)







section \<open>Properties of the recovery sweep\<close>




















end
